theory Spec2Isabelle
  imports Main "HOL-Library.Sublist"
begin

section \<open>Strings\<close>


definition is_lower :: "char \<Rightarrow> bool" where
  "is_lower c = (97 \<le> (of_char c :: nat) \<and> (of_char c :: nat) \<le> 122)"

definition is_upper :: "char \<Rightarrow> bool" where
  "is_upper c = (65 \<le> (of_char c :: nat) \<and> (of_char c :: nat) \<le> 90)"

definition is_cased :: "char \<Rightarrow> bool" where
  "is_cased c = (is_lower c \<or> is_upper c)"

definition upper_char :: "char \<Rightarrow> char" where
  "upper_char c = (if is_lower c then char_of ((of_char c :: nat) - 32) else c)"

definition lower_char :: "char \<Rightarrow> char" where
  "lower_char c = (if is_upper c then char_of ((of_char c :: nat) + 32) else c)"

definition py_upper :: "string \<Rightarrow> string" where
  \<comment> \<open>\<open>str.upper()\<close>\<close>
  "py_upper s = map upper_char s"

definition py_replace :: "char \<Rightarrow> char \<Rightarrow> string \<Rightarrow> string" where
  \<comment> \<open>\<open>str.replace(old, new)\<close> for one-character \<open>old\<close> and \<open>new\<close>\<close>
  "py_replace old new s = map (\<lambda>c. if c = old then new else c) s"

text \<open>
  \<open>str.title()\<close> walks the string with one flag, whether the previous character was a
  cased one: a character after a cased character is lowercased, any other character is
  uppercased (title-cased), and characters without case pass through both unchanged.
\<close>

fun title_from :: "bool \<Rightarrow> string \<Rightarrow> string" where
  "title_from previous_is_cased [] = []"
| "title_from previous_is_cased (c # cs) =
     (if previous_is_cased then lower_char c else upper_char c) # title_from (is_cased c) cs"

definition py_title :: "string \<Rightarrow> string" where
  "py_title s = title_from False s"

definition display_title :: "string \<Rightarrow> string" where
  \<comment> \<open>\<open>output_dir.replace('-', ' ').replace('_', ' ').title()\<close>, lines 78 and 91\<close>
  "display_title output_dir =
     py_title (py_replace (CHR ''_'') (CHR '' '') (py_replace (CHR ''-'') (CHR '' '') output_dir))"

definition course_code :: "string \<Rightarrow> string" where
  \<comment> \<open>\<open>output_dir.upper()\<close>, line 79\<close>
  "course_code output_dir = py_upper output_dir"




section \<open>JSON values\<close>

text \<open>
  What \<open>json.load\<close> returns: a number is kept as the text Python prints for it, an object
  is a \<open>dict\<close>, which keeps its keys in insertion order.
\<close>

datatype json =
    JNull
  | JBool bool
  | JNum string
  | JStr string
  | JArr "json list"
  | JObj "(string \<times> json) list"

datatype error =
    FileNotFoundError
  | FileExistsError
  | IsADirectoryError
  | NotADirectoryError
  | OSError string
  | JSONDecodeError
  | TypeError

fun dict_set :: "(string \<times> json) list \<Rightarrow> string \<Rightarrow> json \<Rightarrow> (string \<times> json) list" where
  \<comment> \<open>\<open>d[k] = v\<close> on a dict: an existing key keeps its place, a new key goes last\<close>
  "dict_set [] k v = [(k, v)]"
| "dict_set ((k', v') # kvs) k v =
     (if k' = k then (k, v) # kvs else (k', v') # dict_set kvs k v)"

definition setitem :: "json \<Rightarrow> string \<Rightarrow> json \<Rightarrow> error + json" where
  \<comment> \<open>\<open>obj[k] = v\<close> with a string key: a TypeError on anything but a dict\<close>
  "setitem obj k v = (case obj of JObj kvs \<Rightarrow> Inr (JObj (dict_set kvs k v)) | _ \<Rightarrow> Inl TypeError)"

text \<open>\<open>json.dump(obj, f, indent=2)\<close>: the encoder of the standard library, with its defaults.\<close>

definition hex_digit :: "nat \<Rightarrow> char" where
  "hex_digit n = (if n < 10 then char_of (48 + n) else char_of (87 + n))"

definition escape_char :: "char \<Rightarrow> string" where
  "escape_char c =
     (if c = CHR 0x22 then [CHR 0x5C, CHR 0x22]
      else if c = CHR 0x5C then [CHR 0x5C, CHR 0x5C]
      else if c = CHR 0x0A then [CHR 0x5C, CHR ''n'']
      else if c = CHR 0x0D then [CHR 0x5C, CHR ''r'']
      else if c = CHR 0x09 then [CHR 0x5C, CHR ''t'']
      else if c = CHR 0x08 then [CHR 0x5C, CHR ''b'']
      else if c = CHR 0x0C then [CHR 0x5C, CHR ''f'']
      else if 32 \<le> (of_char c :: nat) \<and> (of_char c :: nat) \<le> 126 then [c]
      else [CHR 0x5C, CHR ''u'', CHR ''0'', CHR ''0'',
            hex_digit ((of_char c :: nat) div 16), hex_digit ((of_char c :: nat) mod 16)])"

definition encode_basestring_ascii :: "string \<Rightarrow> string" where
  "encode_basestring_ascii s = [CHR 0x22] @ concat (map escape_char s) @ [CHR 0x22]"

definition newline_indent :: "nat \<Rightarrow> string" where
  \<comment> \<open>\<open>'\\n' + ' ' * (2 * level)\<close>\<close>
  "newline_indent level = CHR 0x0A # replicate (2 * level) (CHR '' '')"

fun join :: "string \<Rightarrow> string list \<Rightarrow> string" where
  "join sep [] = []"
| "join sep [x] = x"
| "join sep (x # y # ys) = x @ sep @ join sep (y # ys)"

fun json_encode :: "nat \<Rightarrow> json \<Rightarrow> string" where
  "json_encode level JNull = ''null''"
| "json_encode level (JBool b) = (if b then ''true'' else ''false'')"
| "json_encode level (JNum n) = n"
| "json_encode level (JStr s) = encode_basestring_ascii s"
| "json_encode level (JArr xs) =
     (if xs = [] then ''[]''
      else ''['' @ newline_indent (level + 1)
           @ join ('','' @ newline_indent (level + 1)) (map (json_encode (level + 1)) xs)
           @ newline_indent level @ '']'')"
| "json_encode level (JObj kvs) =
     (if kvs = [] then ''{}''
      else ''{'' @ newline_indent (level + 1)
           @ join ('','' @ newline_indent (level + 1))
               (map (\<lambda>kv. encode_basestring_ascii (fst kv) @ '': '' @ json_encode (level + 1) (snd kv)) kvs)
           @ newline_indent level @ ''}'')"

definition json_dump :: "json \<Rightarrow> string" where
  "json_dump obj = json_encode 0 obj"

section \<open>The filesystem and the environment\<close>

text \<open>
  A path is its list of components from the root; the filesystem maps the paths that
  exist to a directory or to a file with its content.
\<close>

type_synonym path = "string list"

datatype node = File string | Dir

type_synonym filesystem = "path \<rightharpoonup> node"

text \<open>
  I/O can fail for reasons outside the program (permissions, a full disk). The
  environment says where: \<open>OpenFails\<close> is a failure to open the file for writing, which
  leaves it untouched; \<open>WriteFails k\<close> is a failure after \<open>open(path, 'w')\<close> has truncated
  the file and \<open>k\<close> bytes have reached it.
\<close>

datatype write_fault = NoFault | OpenFails string | WriteFails nat string

text \<open>
  \<open>MakedirsFails\<close>: \<open>shutil.copytree\<close> fails before it creates anything.
  \<open>CopyFails msg part\<close>: it fails later and \<open>part\<close> is what it has left under the
  target, by relative path.
\<close>

datatype copy_fault = CopyOk | MakedirsFails string | CopyFails string "path \<rightharpoonup> node"

record env =
  script_dir :: path                           \<comment> \<open>\<open>Path(__file__).parent\<close>\<close>
  resolve :: "string \<Rightarrow> path"                  \<comment> \<open>\<open>Path(output_dir)\<close>, from the working directory\<close>
  json_load :: "string \<Rightarrow> json option"         \<comment> \<open>\<open>json.load\<close> on the text of a file; \<open>None\<close> is a JSONDecodeError\<close>
  copy_io :: copy_fault                        \<comment> \<open>I/O failure of the copy step\<close>
  json_read_io :: "string option"              \<comment> \<open>I/O failure reading course.json\<close>
  json_write_io :: write_fault                 \<comment> \<open>I/O failure writing course.json\<close>
  readme_write_io :: write_fault               \<comment> \<open>I/O failure writing README.md\<close>

definition path_exists :: "filesystem \<Rightarrow> path \<Rightarrow> bool" where
  \<comment> \<open>\<open>Path.exists()\<close>\<close>
  "path_exists fs p = (fs p \<noteq> None)"

definition read_text :: "string option \<Rightarrow> filesystem \<Rightarrow> path \<Rightarrow> error + string" where
  \<comment> \<open>\<open>open(p, 'r')\<close> and read\<close>
  "read_text io fs p =
     (case fs p of
        None \<Rightarrow> Inl FileNotFoundError
      | Some Dir \<Rightarrow> Inl IsADirectoryError
      | Some (File s) \<Rightarrow> (case io of Some msg \<Rightarrow> Inl (OSError msg) | None \<Rightarrow> Inr s))"

definition write_text :: "write_fault \<Rightarrow> filesystem \<Rightarrow> path \<Rightarrow> string \<Rightarrow> error option \<times> filesystem" where
  \<comment> \<open>\<open>open(p, 'w')\<close> and write: the error raised, if any, and the filesystem left\<close>
  "write_text io fs p s =
     (if fs p = Some Dir then (Some IsADirectoryError, fs)
      else (case fs (butlast p) of
              None \<Rightarrow> (Some FileNotFoundError, fs)
            | Some (File parent) \<Rightarrow> (Some NotADirectoryError, fs)
            | Some Dir \<Rightarrow>
                (case io of
                   NoFault \<Rightarrow> (None, fs(p \<mapsto> File s))
                 | OpenFails msg \<Rightarrow> (Some (OSError msg), fs)
                 | WriteFails k msg \<Rightarrow> (Some (OSError msg), fs(p \<mapsto> File (take k s))))))"

definition subtree :: "filesystem \<Rightarrow> path \<Rightarrow> (path \<rightharpoonup> node)" where
  \<comment> \<open>what lies at and under \<open>src\<close>, by relative path\<close>
  "subtree fs src = (\<lambda>rel. fs (src @ rel))"

definition graft :: "filesystem \<Rightarrow> path \<Rightarrow> (path \<rightharpoonup> node) \<Rightarrow> filesystem" where
  \<comment> \<open>\<open>fs\<close> with \<open>t\<close> at and under \<open>dst\<close>\<close>
  "graft fs dst t = (\<lambda>q. if prefix dst q then t (drop (length dst) q) else fs q)"

definition ancestors :: "path \<Rightarrow> path list" where
  "ancestors p = butlast (prefixes p)"

definition is_file :: "node option \<Rightarrow> bool" where
  "is_file n = (case n of Some (File s) \<Rightarrow> True | _ \<Rightarrow> False)"

definition mkparents :: "filesystem \<Rightarrow> path \<Rightarrow> filesystem" where
  \<comment> \<open>\<open>os.makedirs\<close> creates the missing directories above the target\<close>
  "mkparents fs dst = (\<lambda>q. if strict_prefix q dst \<and> fs q = None then Some Dir else fs q)"

text \<open>
  \<open>shutil.copytree(src, dst)\<close>: it lists \<open>src\<close>, creates \<open>dst\<close> (which must not exist) with
  the directories above it, and copies every entry of \<open>src\<close> to the same relative path
  under \<open>dst\<close>. It returns the error it raises, if any, and the filesystem it leaves.
  For a target inside the template, \<open>copytree\<close> lists the template before it creates the
  target, so a copy that succeeds is still the copy of the template as it was; but when
  the target lies in an existing subdirectory of the template, \<open>copytree\<close> walks into the
  directory it is filling and fails in the end, which the model does not show. The
  theorem about the whole copied tree assumes that the target lies outside the template.
\<close>

definition copytree :: "copy_fault \<Rightarrow> filesystem \<Rightarrow> path \<Rightarrow> path \<Rightarrow> error option \<times> filesystem" where
  "copytree io fs src dst =
     (case fs src of
        None \<Rightarrow> (Some FileNotFoundError, fs)
      | Some (File s) \<Rightarrow> (Some NotADirectoryError, fs)
      | Some Dir \<Rightarrow>
          if fs dst \<noteq> None then (Some FileExistsError, fs)
          else if list_ex (\<lambda>q. is_file (fs q)) (ancestors dst) then (Some NotADirectoryError, fs)
          else (case io of
                  MakedirsFails msg \<Rightarrow> (Some (OSError msg), fs)
                | CopyFails msg part \<Rightarrow> (Some (OSError msg), graft (mkparents fs dst) dst part)
                | CopyOk \<Rightarrow> (None, graft (mkparents fs dst) dst (subtree fs src))))"

section \<open>The generated README\<close>

definition box_tee :: string where
  "box_tee = [CHR 0xE2, CHR 0x94, CHR 0x9C, CHR 0xE2, CHR 0x94, CHR 0x80, CHR 0xE2, CHR 0x94, CHR 0x80]"

definition box_end :: string where
  "box_end = [CHR 0xE2, CHR 0x94, CHR 0x94, CHR 0xE2, CHR 0x94, CHR 0x80, CHR 0xE2, CHR 0x94, CHR 0x80]"

definition box_bar :: string where
  "box_bar = [CHR 0xE2, CHR 0x94, CHR 0x82]"

definition readme_part1 :: "string list" where
  \<comment> \<open>lines 92-123 of the source: from the heading to the opening of the folder diagram\<close>
  "readme_part1 =
     ['''',
      ''This Canvas course was created from the **canvas-course-template** with comprehensive CSS styling system.'',
      '''',
      ''## '' @ [CHR 0xF0, CHR 0x9F, CHR 0x8E, CHR 0xA8] @ '' CSS Styling System'',
      '''',
      ''This template includes a complete styling system for creating professional, visually appealing course content. All styles are defined in `css/canvas-course.css` and work seamlessly with Canvas LMS.'',
      '''',
      ''### Available Components:'',
      '''',
      ''**Info Boxes:**'',
      ''- `info-learning-goals` - Cyan box for learning objectives'',
      ''- `info-key-concept` - Indigo box for key concepts'',
      ''- `info-tip` - Yellow box for helpful tips'',
      ''- `info-note` - Orange box for important notes'',
      ''- `info-summary` - Gray box for summaries'',
      '''',
      ''**Task Accordions:**'',
      ''- `task-practice` - Blue accordion for practice exercises'',
      ''- `task-portfolio` - Purple accordion for portfolio tasks'',
      ''- `task-quiz` - Teal/mint accordion for quiz tasks'',
      '''',
      ''**Other Features:**'',
      ''- Canvas native tabs with color themes'',
      ''- Priority badges (MUST/SHOULD/COULD with MoSCoW method)'',
      ''- Good/bad example boxes with dashed borders'',
      ''- Styled tables and general accordions'',
      '''',
      ''See the styling guide pages for complete examples and usage.'',
      '''',
      ''## '' @ [CHR 0xF0, CHR 0x9F, CHR 0x93, CHR 0x81] @ '' Folder Structure'',
      '''',
      ''```'']"

definition readme_part2 :: "string list" where
  \<comment> \<open>lines 125-182 of the source: the folder diagram to the opening of the export command\<close>
  "readme_part2 =
     [box_tee @ '' wiki_content/                # HTML pages for your course'',
      box_bar @ ''   '' @ box_tee @ '' welcome_TEMPLATE.html    # Home page with customizable banner'',
      box_bar @ ''   '' @ box_tee @ '' styling-guide-*_TEMPLATE.html  # Documentation pages'',
      box_bar @ ''   '' @ box_end @ '' ...'',
      box_tee @ '' css/'',
      box_bar @ ''   '' @ box_end @ '' canvas-course.css        # Complete styling system'',
      box_tee @ '' web_resources/               # Files (PDFs, images, documents)'',
      box_tee @ '' quizzes/                     # Quiz definitions (JSON)'',
      box_tee @ '' assignments/                 # Assignment definitions (JSON)'',
      box_tee @ '' rubrics/                     # Rubrics (JSON format)'',
      box_tee @ '' course.json                  # Course metadata'',
      box_tee @ '' modules.json                 # Module organization'',
      box_end @ '' README.md                    # This file'',
      ''```'',
      '''',
      ''## '' @ [CHR 0xF0, CHR 0x9F, CHR 0x9A, CHR 0x80] @ '' Working Locally'',
      '''',
      ''1. **Edit pages**: Open HTML files in `wiki_content/` with your favorite editor'',
      ''2. **Preview**: Open HTML files directly in your browser - all links and styles work locally!'',
      ''3. **Add files**: Place PDFs, images, etc. in `web_resources/`'',
      ''4. **Create content**: Add quizzes, assignments, and rubrics as JSON files'',
      ''5. **Organize**: Update `modules.json` to organize all content into modules'',
      '''',
      ''## '' @ [CHR 0xF0, CHR 0x9F, CHR 0x93, CHR 0x84] @ '' Page Metadata'',
      '''',
      ''Each page can have metadata in HTML comments at the top:'',
      '''',
      ''```html'',
      ''<!-- CANVAS_META'',
      ''title: My Page Title'',
      ''home: true'',
      ''-->'',
      ''```'',
      '''',
      ''Supported metadata:'',
      ''- `title`: Page title (defaults to filename)'',
      ''- `home`: Set to `true` to make this the course home page'',
      '''',
      ''## '' @ [CHR 0xF0, CHR 0x9F, CHR 0x94, CHR 0x97] @ '' Linking'',
      '''',
      ''### Link to files:'',
      ''```html'',
      ''<a href='' @ [CHR 0x22] @ ''../web_resources/syllabus.pdf'' @ [CHR 0x22] @ ''>Syllabus</a>'',
      ''```'',
      '''',
      ''### Link to other pages:'',
      ''```html'',
      ''<a href='' @ [CHR 0x22] @ ''lesson-1.html'' @ [CHR 0x22] @ ''>Go to Lesson 1</a>'',
      ''```'',
      '''',
      ''These links work locally for preview. When you export to IMSCC, they'' @ [CHR 0x27] @ ''re automatically'',
      ''converted to Canvas format.'',
      '''',
      ''## '' @ [CHR 0xF0, CHR 0x9F, CHR 0x93, CHR 0xA6] @ '' Export to IMSCC'',
      '''',
      ''When ready to upload to Canvas:'',
      '''',
      ''```bash'']"

definition readme_part3 :: "string list" where
  \<comment> \<open>lines 184-208 of the source: the rest of the document\<close>
  "readme_part3 =
     [''```'',
      '''',
      ''This will create an `.imscc` file that you can import into Canvas.'',
      '''',
      ''## '' @ [CHR 0xF0, CHR 0x9F, CHR 0x8F, CHR 0xB7, CHR 0xEF, CHR 0xB8, CHR 0x8F] @ '' Template Files'',
      '''',
      ''All example files are tagged with `_TEMPLATE` in their filenames for easy identification:'',
      '''',
      ''- **Pages:** `welcome_TEMPLATE.html`, `styling-guide-*_TEMPLATE.html`'',
      ''- **Quizzes:** `*_TEMPLATE.json`'',
      ''- **Assignments:** `*_TEMPLATE.json` and `*_TEMPLATE.html`'',
      ''- **Rubrics:** `*_TEMPLATE.json`'',
      '''',
      ''**To remove templates:** Delete all files containing `_TEMPLATE` when you'' @ [CHR 0x27] @ ''re ready to add your own content.'',
      '''',
      ''## '' @ [CHR 0xF0, CHR 0x9F, CHR 0x93, CHR 0x9A] @ '' Next Steps'',
      '''',
      ''1. Open `wiki_content/welcome_TEMPLATE.html` in your browser to see the template'',
      ''2. Review the styling guide pages to see all available CSS components'',
      ''3. Customize the welcome page banner with your course colors'',
      ''4. Replace template content with your own course materials'',
      ''5. Delete `_TEMPLATE` files when ready'',
      ''6. Build and import to Canvas'',
      '''',
      ''For complete documentation, see the styling guide pages in `wiki_content/`.'']"

definition unlines :: "string list \<Rightarrow> string" where
  "unlines ls = concat (map (\<lambda>l. l @ [CHR 0x0A]) ls)"

definition readme_content :: "string \<Rightarrow> string" where
  \<comment> \<open>the f-string of lines 91-209, with its three interpolations\<close>
  "readme_content output_dir =
     ''# '' @ display_title output_dir @ [CHR 0x0A]
     @ unlines readme_part1
     @ output_dir @ ''/'' @ [CHR 0x0A]
     @ unlines readme_part2
     @ ''python build_from_template.py '' @ output_dir @ [CHR 0x0A]
     @ unlines readme_part3"

section \<open>create_template\<close>

text \<open>
  What the script prints, one constructor for each \<open>print\<close> or run of \<open>print\<close>s, with the
  values it interpolates. The lines of the listing step (62-67) only read the copied
  tree; their text is not modelled.
\<close>

datatype message =
    ErrAlreadyExists string        \<comment> \<open>lines 34-35\<close>
  | ErrTemplateNotFound path       \<comment> \<open>lines 43-44\<close>
  | Banner string path             \<comment> \<open>lines 47-50\<close>
  | CopyingFiles                   \<comment> \<open>line 53\<close>
  | ErrCopying error               \<comment> \<open>line 57\<close>
  | CopiedStructure                \<comment> \<open>lines 61-67\<close>
  | UpdatingCourseJson             \<comment> \<open>line 72\<close>
  | UpdatedTitle json              \<comment> \<open>line 84\<close>
  | UpdatedCourseCode json         \<comment> \<open>line 85\<close>
  | WarnCourseJson error           \<comment> \<open>line 87\<close>
  | UpdatingReadme                 \<comment> \<open>line 90\<close>
  | ReadmeWritten                  \<comment> \<open>line 212\<close>
  | Success string                 \<comment> \<open>lines 215-242\<close>

datatype outcome = Returned bool | Raised error

definition template_source :: "env \<Rightarrow> path" where
  \<comment> \<open>\<open>script_dir / "canvas-course-template"\<close>, line 40\<close>
  "template_source e = script_dir e @ [''canvas-course-template'']"

definition rewrite_course_data :: "string \<Rightarrow> json \<Rightarrow> error + json" where
  \<comment> \<open>lines 78-79\<close>
  "rewrite_course_data output_dir course_data =
     (case setitem course_data ''title'' (JStr (display_title output_dir)) of
        Inl err \<Rightarrow> Inl err
      | Inr d1 \<Rightarrow> setitem d1 ''course_code'' (JStr (course_code output_dir)))"

definition try_update_course_json :: "env \<Rightarrow> string \<Rightarrow> path \<Rightarrow> filesystem \<Rightarrow> error option \<times> filesystem" where
  \<comment> \<open>the body of the \<open>try\<close>, lines 74-82: the exception it raises, if any, and the filesystem left\<close>
  "try_update_course_json e output_dir course_json_path fs =
     (case read_text (json_read_io e) fs course_json_path of
        Inl err \<Rightarrow> (Some err, fs)
      | Inr text \<Rightarrow>
          (case json_load e text of
             None \<Rightarrow> (Some JSONDecodeError, fs)
           | Some course_data \<Rightarrow>
               (case rewrite_course_data output_dir course_data of
                  Inl err \<Rightarrow> (Some err, fs)
                | Inr course_data' \<Rightarrow>
                    write_text (json_write_io e) fs course_json_path (json_dump course_data'))))"

definition update_course_json :: "env \<Rightarrow> string \<Rightarrow> path \<Rightarrow> filesystem \<Rightarrow> filesystem \<times> message list" where
  \<comment> \<open>lines 70-87\<close>
  "update_course_json e output_dir output_path fs =
     (let course_json_path = output_path @ [''course.json''] in
      if path_exists fs course_json_path then
        (case try_update_course_json e output_dir course_json_path fs of
           (None, fs') \<Rightarrow>
             (fs', [UpdatingCourseJson,
                    UpdatedTitle (JStr (display_title output_dir)),
                    UpdatedCourseCode (JStr (course_code output_dir))])
         | (Some err, fs') \<Rightarrow> (fs', [UpdatingCourseJson, WarnCourseJson err]))
      else (fs, []))"

definition create_template :: "env \<Rightarrow> string \<Rightarrow> filesystem \<Rightarrow> outcome \<times> filesystem \<times> message list" where
  "create_template e output_dir fs =
     (let output_path = resolve e output_dir in
      if path_exists fs output_path then (Returned False, fs, [ErrAlreadyExists output_dir])
      else if \<not> path_exists fs (template_source e) then
        (Returned False, fs, [ErrTemplateNotFound (template_source e)])
      else
        (case copytree (copy_io e) fs (template_source e) output_path of
           (Some err, fs1) \<Rightarrow>
             (Returned False, fs1, [Banner output_dir (template_source e), CopyingFiles, ErrCopying err])
         | (None, fs1) \<Rightarrow>
             (case update_course_json e output_dir output_path fs1 of
                (fs2, msgs) \<Rightarrow>
                  (case write_text (readme_write_io e) fs2 (output_path @ [''README.md''])
                          (readme_content output_dir) of
                     (Some err, fs3) \<Rightarrow>
                       (Raised err, fs3,
                        [Banner output_dir (template_source e), CopyingFiles, CopiedStructure]
                        @ msgs @ [UpdatingReadme])
                   | (None, fs3) \<Rightarrow>
                       (Returned True, fs3,
                        [Banner output_dir (template_source e), CopyingFiles, CopiedStructure]
                        @ msgs @ [UpdatingReadme, ReadmeWritten, Success output_dir])))))"

section \<open>Concrete runs\<close>

definition demo_text :: string where
  \<comment> \<open>the text \<open>{"credits": 5}\<close>\<close>
  "demo_text = ''{'' @ [CHR 0x22] @ ''credits'' @ [CHR 0x22] @ '': 5}''"

definition demo_json_load :: "string \<Rightarrow> json option" where
  \<comment> \<open>\<open>json.load\<close> on the two texts of the examples; \<open>{broken\<close> is malformed\<close>
  "demo_json_load s = (if s = demo_text then Some (JObj [(''credits'', JNum ''5'')]) else None)"

definition demo_env :: env where
  "demo_env =
     \<lparr> script_dir = [''tools''], resolve = (\<lambda>s. [''work'', s]), json_load = demo_json_load,
       copy_io = CopyOk, json_read_io = None, json_write_io = NoFault, readme_write_io = NoFault \<rparr>"

definition demo_template :: path where
  "demo_template = [''tools'', ''canvas-course-template'']"

definition demo_fs :: filesystem where
  "demo_fs =
     [ [''tools''] \<mapsto> Dir,
       [''work''] \<mapsto> Dir,
       [''work'', ''taken''] \<mapsto> Dir,
       [''work'', ''notes.txt''] \<mapsto> File ''todo'',
       demo_template \<mapsto> Dir,
       demo_template @ [''course.json''] \<mapsto> File demo_text,
       demo_template @ [''README.md''] \<mapsto> File ''# Template'',
       demo_template @ [''css''] \<mapsto> Dir,
       demo_template @ [''css'', ''canvas-course.css''] \<mapsto> File ''h1 {}'' ]"

definition copy_fails_env :: env where
  \<comment> \<open>the disk fills up while the tree is copied: only the \<open>css\<close> directory has been created\<close>
  "copy_fails_env =
     demo_env \<lparr> copy_io := CopyFails ''No space left on device'' [[] \<mapsto> Dir, [''css''] \<mapsto> Dir] \<rparr>"

definition readme_fails_env :: env where
  \<comment> \<open>the disk fills up when README.md is written\<close>
  "readme_fails_env = demo_env \<lparr> readme_write_io := WriteFails 0 ''No space left on device'' \<rparr>"




definition no_course_json_fs :: filesystem where
  \<comment> \<open>a template without a course.json\<close>
  "no_course_json_fs = demo_fs (demo_template @ [''course.json''] := None)"

section \<open>Auxiliary facts\<close>

subsection \<open>Strings\<close>







subsection \<open>Dictionaries and the encoder\<close>






subsection \<open>Files\<close>

lemma write_text_frame: "q \<noteq> p \<Longrightarrow> snd (write_text io fs p s) q = fs q"
  by (simp add: write_text_def split: write_fault.splits option.splits node.splits)


lemma write_text_None:
  "write_text io fs p s = (None, fs') \<Longrightarrow> fs' = fs(p \<mapsto> File s)"
  by (auto simp: write_text_def split: if_splits write_fault.splits option.splits node.splits)

lemma write_text_fst_cong:
  "fs' p = fs p \<Longrightarrow> fs' (butlast p) = fs (butlast p) \<Longrightarrow>
   fst (write_text io fs' p s) = fst (write_text io fs p s)"
  by (simp add: write_text_def split: write_fault.splits option.splits node.splits)





subsection \<open>The course.json step\<close>

lemma try_update_frame: "q \<noteq> p \<Longrightarrow> snd (try_update_course_json e d p fs) q = fs q"
  by (simp add: try_update_course_json_def write_text_frame split: sum.splits option.splits)





lemma update_course_json_frame:
  "q \<noteq> p @ [''course.json''] \<Longrightarrow> fst (update_course_json e d p fs) q = fs q"
  using try_update_frame [of q "p @ [''course.json'']" e d fs]
  by (auto simp: update_course_json_def Let_def split: prod.splits option.splits)





lemma readme_after_update:
  "fst (write_text io (fst (update_course_json e d p fs)) (p @ [''README.md'']) s)
   = fst (write_text io fs (p @ [''README.md'']) s)"
  by (rule write_text_fst_cong) (simp_all add: update_course_json_frame)

subsection \<open>The paths through create_template\<close>

lemma create_template_exists:
  "path_exists fs (resolve e d) \<Longrightarrow>
   create_template e d fs = (Returned False, fs, [ErrAlreadyExists d])"
  by (simp add: create_template_def)

lemma create_template_no_template:
  "\<not> path_exists fs (resolve e d) \<Longrightarrow> \<not> path_exists fs (template_source e) \<Longrightarrow>
   create_template e d fs = (Returned False, fs, [ErrTemplateNotFound (template_source e)])"
  by (simp add: create_template_def)

lemma create_template_copy_failed:
  "\<not> path_exists fs (resolve e d) \<Longrightarrow> path_exists fs (template_source e) \<Longrightarrow>
   copytree (copy_io e) fs (template_source e) (resolve e d) = (Some err, fs1) \<Longrightarrow>
   create_template e d fs =
     (Returned False, fs1, [Banner d (template_source e), CopyingFiles, ErrCopying err])"
  by (simp add: create_template_def)

lemma create_template_copied:
  "\<not> path_exists fs (resolve e d) \<Longrightarrow> path_exists fs (template_source e) \<Longrightarrow>
   copytree (copy_io e) fs (template_source e) (resolve e d) = (None, fs1) \<Longrightarrow>
   update_course_json e d (resolve e d) fs1 = (fs2, msgs) \<Longrightarrow>
   write_text (readme_write_io e) fs2 (resolve e d @ [''README.md'']) (readme_content d) = (r, fs3) \<Longrightarrow>
   create_template e d fs =
     (case r of
        Some err \<Rightarrow>
          (Raised err, fs3,
           [Banner d (template_source e), CopyingFiles, CopiedStructure] @ msgs @ [UpdatingReadme])
      | None \<Rightarrow>
          (Returned True, fs3,
           [Banner d (template_source e), CopyingFiles, CopiedStructure] @ msgs
           @ [UpdatingReadme, ReadmeWritten, Success d]))"
  by (simp add: create_template_def split: option.splits)

lemma create_template_copied_fst:
  assumes "\<not> path_exists fs (resolve e d)" "path_exists fs (template_source e)"
    and "copytree (copy_io e) fs (template_source e) (resolve e d) = (None, fs1)"
  shows "fst (create_template e d fs) =
     (case fst (write_text (readme_write_io e) fs1 (resolve e d @ [''README.md'']) (readme_content d)) of
        Some err \<Rightarrow> Raised err | None \<Rightarrow> Returned True)"
proof -
  obtain fs2 msgs where u: "update_course_json e d (resolve e d) fs1 = (fs2, msgs)"
    by (cases "update_course_json e d (resolve e d) fs1")
  obtain r fs3 where w:
    "write_text (readme_write_io e) fs2 (resolve e d @ [''README.md'']) (readme_content d) = (r, fs3)"
    by (cases "write_text (readme_write_io e) fs2 (resolve e d @ [''README.md'']) (readme_content d)")
  have "r = fst (write_text (readme_write_io e) fs1 (resolve e d @ [''README.md'']) (readme_content d))"
    using readme_after_update [of "readme_write_io e" e d "resolve e d" fs1 "readme_content d"] u w
    by simp
  with create_template_copied [OF assms u w] show ?thesis
    by (simp split: option.splits)
qed



lemma create_template_True:
  assumes "create_template e d fs = (Returned True, fs', out)"
  obtains fs1 fs2 msgs where
    "\<not> path_exists fs (resolve e d)" "path_exists fs (template_source e)"
    "copytree (copy_io e) fs (template_source e) (resolve e d) = (None, fs1)"
    "update_course_json e d (resolve e d) fs1 = (fs2, msgs)"
    "write_text (readme_write_io e) fs2 (resolve e d @ [''README.md'']) (readme_content d) = (None, fs')"
    "out = [Banner d (template_source e), CopyingFiles, CopiedStructure] @ msgs
           @ [UpdatingReadme, ReadmeWritten, Success d]"
proof -
  have free: "\<not> path_exists fs (resolve e d)"
    using assms by (auto simp: create_template_def Let_def split: if_splits)
  have tpl: "path_exists fs (template_source e)"
    using assms free by (auto simp: create_template_def Let_def split: if_splits)
  obtain r fs1 where c: "copytree (copy_io e) fs (template_source e) (resolve e d) = (r, fs1)"
    by (cases "copytree (copy_io e) fs (template_source e) (resolve e d)")
  have r: "r = None"
    using assms free tpl c create_template_copy_failed [OF free tpl, of _ fs1] by (cases r) auto
  obtain fs2 msgs where u: "update_course_json e d (resolve e d) fs1 = (fs2, msgs)"
    by (cases "update_course_json e d (resolve e d) fs1")
  obtain r' fs3 where w:
    "write_text (readme_write_io e) fs2 (resolve e d @ [''README.md'']) (readme_content d) = (r', fs3)"
    by (cases "write_text (readme_write_io e) fs2 (resolve e d @ [''README.md'']) (readme_content d)")
  from create_template_copied [OF free tpl c [unfolded r] u w] assms
  have "r' = None \<and> fs3 = fs' \<and>
        out = [Banner d (template_source e), CopyingFiles, CopiedStructure] @ msgs
              @ [UpdatingReadme, ReadmeWritten, Success d]"
    by (cases r') auto
  with that [OF free tpl c [unfolded r] u] w show thesis by simp
qed

subsection \<open>The concrete runs\<close>

lemma pair_fst: "fst p = a \<Longrightarrow> p = (a, snd p)"
  by (cases p) simp

lemma demo_taken: "path_exists demo_fs (resolve demo_env ''taken'')"
  by (simp add: path_exists_def demo_fs_def demo_env_def demo_template_def)

lemma demo_free: "\<not> path_exists demo_fs (resolve demo_env ''bio-101'')"
  by (simp add: path_exists_def demo_fs_def demo_env_def demo_template_def)

lemma demo_has_template: "path_exists demo_fs (template_source demo_env)"
  by (simp add: path_exists_def demo_fs_def demo_env_def demo_template_def template_source_def)

lemma demo_run: "fst (create_template demo_env ''bio-101'' demo_fs) = Returned True"
  by code_simp

lemma demo_resolve: "resolve demo_env ''bio-101'' = [''work'', ''bio-101'']"
  by (simp add: demo_env_def)


section \<open>The claims\<close>




text \<open>
  C2. If the target path already exists (as a file or as a directory) or the template
  source tree is missing, \<open>create_template\<close> returns \<open>False\<close> and the filesystem is exactly
  what it was: nothing is copied, no target directory is created, and an existing
  target is not modified.
\<close>

theorem precondition_failure_mutates_nothing:
  assumes "path_exists fs (resolve e output_dir) \<or> \<not> path_exists fs (template_source e)"
  shows "fst (create_template e output_dir fs) = Returned False
         \<and> fst (snd (create_template e output_dir fs)) = fs"
proof (cases "path_exists fs (resolve e output_dir)")
  case True
  then show ?thesis by (simp add: create_template_exists)
next
  case False
  with assms have "\<not> path_exists fs (template_source e)" by simp
  with False show ?thesis by (simp add: create_template_no_template)
qed

text \<open>A target that is a directory, a target that is a file, and a filesystem with no template.\<close>

theorem precondition_failure_witness:
  "fst (create_template demo_env ''taken'' demo_fs) = Returned False
   \<and> fst (snd (create_template demo_env ''taken'' demo_fs)) = demo_fs
   \<and> fst (create_template demo_env ''notes.txt'' demo_fs) = Returned False
   \<and> fst (snd (create_template demo_env ''notes.txt'' demo_fs)) = demo_fs
   \<and> fst (create_template demo_env ''bio-101'' Map.empty) = Returned False
   \<and> fst (snd (create_template demo_env ''bio-101'' Map.empty)) = Map.empty"
proof -
  have f: "path_exists demo_fs (resolve demo_env ''notes.txt'')" by code_simp
  have n: "\<not> path_exists Map.empty (template_source demo_env)" by (simp add: path_exists_def)
  show ?thesis
    using precondition_failure_mutates_nothing [of demo_fs demo_env "''taken''"]
      precondition_failure_mutates_nothing [of demo_fs demo_env "''notes.txt''"]
      precondition_failure_mutates_nothing [of Map.empty demo_env "''bio-101''"]
      demo_taken f n
    by simp
qed

text \<open>
  C3. \<open>create_template\<close> returns \<open>True\<close> exactly when the target path did not exist, the
  template exists, the copy step succeeds and the write of README.md succeeds; the
  outcome of the course.json step plays no part (the README condition is stated on the
  filesystem as the copy left it). It returns \<open>False\<close> exactly when the target path
  exists, the template is missing, or the copy step raises.
  The specification promises \<open>True\<close> whenever the precondition and the copy succeed; a
  failing README write makes the call raise instead.
\<close>

theorem return_value:
  "(fst (create_template e d fs) = Returned True) =
     (\<not> path_exists fs (resolve e d) \<and> path_exists fs (template_source e)
      \<and> fst (copytree (copy_io e) fs (template_source e) (resolve e d)) = None
      \<and> fst (write_text (readme_write_io e)
                (snd (copytree (copy_io e) fs (template_source e) (resolve e d)))
                (resolve e d @ [''README.md'']) (readme_content d)) = None)
   \<and> (fst (create_template e d fs) = Returned False) =
     (path_exists fs (resolve e d) \<or> \<not> path_exists fs (template_source e)
      \<or> fst (copytree (copy_io e) fs (template_source e) (resolve e d)) \<noteq> None)"
proof (cases "path_exists fs (resolve e d)")
  case True
  then show ?thesis by (simp add: create_template_exists)
next
  case free: False
  show ?thesis
  proof (cases "path_exists fs (template_source e)")
    case False
    with free show ?thesis by (simp add: create_template_no_template)
  next
    case tpl: True
    obtain r fs1 where c: "copytree (copy_io e) fs (template_source e) (resolve e d) = (r, fs1)"
      by (cases "copytree (copy_io e) fs (template_source e) (resolve e d)")
    show ?thesis
    proof (cases r)
      case (Some err)
      with free tpl c show ?thesis by (simp add: create_template_copy_failed)
    next
      case None
      with c have "copytree (copy_io e) fs (template_source e) (resolve e d) = (None, fs1)" by simp
      from create_template_copied_fst [OF free tpl this] free tpl c None show ?thesis
        by (simp split: option.splits)
    qed
  qed
qed

text \<open>A run that returns \<open>True\<close> and one that returns \<open>False\<close>.\<close>

theorem return_value_witness:
  "fst (create_template demo_env ''bio-101'' demo_fs) = Returned True
   \<and> fst (create_template demo_env ''taken'' demo_fs) = Returned False"
proof -
  have a: "\<not> path_exists demo_fs (resolve demo_env ''bio-101'')" by (rule demo_free)
  have b: "path_exists demo_fs (template_source demo_env)" by (rule demo_has_template)
  have c: "fst (copytree (copy_io demo_env) demo_fs (template_source demo_env)
             (resolve demo_env ''bio-101'')) = None"
    by code_simp
  have d: "fst (write_text (readme_write_io demo_env)
             (snd (copytree (copy_io demo_env) demo_fs (template_source demo_env)
                (resolve demo_env ''bio-101'')))
             (resolve demo_env ''bio-101'' @ [''README.md'']) (readme_content ''bio-101'')) = None"
    by code_simp
  show ?thesis
    using return_value [of demo_env "''bio-101''" demo_fs]
      return_value [of demo_env "''taken''" demo_fs] a b c d demo_taken
    by simp
qed

text \<open>The precondition holds and the copy succeeds, yet the call raises: the disk is full when README.md is written.\<close>

theorem return_value_counterexample:
  "\<not> path_exists demo_fs (resolve readme_fails_env ''bio-101'')
   \<and> path_exists demo_fs (template_source readme_fails_env)
   \<and> fst (copytree (copy_io readme_fails_env) demo_fs (template_source readme_fails_env)
         (resolve readme_fails_env ''bio-101'')) = None
   \<and> fst (create_template readme_fails_env ''bio-101'' demo_fs)
       = Raised (OSError ''No space left on device'')
   \<and> fst (create_template readme_fails_env ''bio-101'' demo_fs) \<noteq> Returned True"
proof (intro conjI)
  show "\<not> path_exists demo_fs (resolve readme_fails_env ''bio-101'')" by code_simp
  show "path_exists demo_fs (template_source readme_fails_env)" by code_simp
  show "fst (copytree (copy_io readme_fails_env) demo_fs (template_source readme_fails_env)
         (resolve readme_fails_env ''bio-101'')) = None" by code_simp
  show r: "fst (create_template readme_fails_env ''bio-101'' demo_fs)
       = Raised (OSError ''No space left on device'')" by code_simp
  show "fst (create_template readme_fails_env ''bio-101'' demo_fs) \<noteq> Returned True"
    by (simp add: r)
qed











text \<open>
  C8. If the copy step raises, \<open>create_template\<close> prints the error and returns \<open>False\<close>,
  and the filesystem is exactly what the copy step left: nothing is rolled back or
  cleaned up.
\<close>

theorem copy_failure_returns_false:
  assumes "\<not> path_exists fs (resolve e output_dir)"
    and "path_exists fs (template_source e)"
    and "copytree (copy_io e) fs (template_source e) (resolve e output_dir) = (Some err, fs1)"
  shows "create_template e output_dir fs =
           (Returned False, fs1,
            [Banner output_dir (template_source e), CopyingFiles, ErrCopying err])"
  using assms by (rule create_template_copy_failed)

text \<open>The disk fills up during the copy: the directory created so far stays.\<close>

theorem copy_failure_witness:
  "create_template copy_fails_env ''bio-101'' demo_fs =
     (Returned False,
      snd (copytree (copy_io copy_fails_env) demo_fs [''tools'', ''canvas-course-template'']
             [''work'', ''bio-101'']),
      [Banner ''bio-101'' [''tools'', ''canvas-course-template''], CopyingFiles,
       ErrCopying (OSError ''No space left on device'')])
   \<and> snd (copytree (copy_io copy_fails_env) demo_fs [''tools'', ''canvas-course-template'']
             [''work'', ''bio-101'']) [''work'', ''bio-101'', ''css''] = Some Dir
   \<and> snd (copytree (copy_io copy_fails_env) demo_fs [''tools'', ''canvas-course-template'']
             [''work'', ''bio-101'']) [''work'', ''bio-101'', ''css'', ''canvas-course.css''] = None"
proof -
  have s: "template_source copy_fails_env = [''tools'', ''canvas-course-template'']"
    by code_simp
  have r: "resolve copy_fails_env ''bio-101'' = [''work'', ''bio-101'']"
    by code_simp
  have a: "\<not> path_exists demo_fs (resolve copy_fails_env ''bio-101'')" by code_simp
  have b: "path_exists demo_fs (template_source copy_fails_env)" by code_simp
  have "fst (copytree (copy_io copy_fails_env) demo_fs (template_source copy_fails_env)
          (resolve copy_fails_env ''bio-101'')) = Some (OSError ''No space left on device'')"
    by code_simp
  then have c: "copytree (copy_io copy_fails_env) demo_fs (template_source copy_fails_env)
          (resolve copy_fails_env ''bio-101'')
        = (Some (OSError ''No space left on device''),
           snd (copytree (copy_io copy_fails_env) demo_fs (template_source copy_fails_env)
                  (resolve copy_fails_env ''bio-101'')))"
    by (rule pair_fst)
  have 1: "snd (copytree (copy_io copy_fails_env) demo_fs [''tools'', ''canvas-course-template'']
             [''work'', ''bio-101'']) [''work'', ''bio-101'', ''css''] = Some Dir"
    by code_simp
  have 2: "snd (copytree (copy_io copy_fails_env) demo_fs [''tools'', ''canvas-course-template'']
             [''work'', ''bio-101'']) [''work'', ''bio-101'', ''css'', ''canvas-course.css''] = None"
    by code_simp
  from copy_failure_returns_false [OF a b c] 1 2 show ?thesis
    unfolding s r by simp
qed

text \<open>
  C9. After a run that returns \<open>True\<close>, README.md holds the generated text, which
  contains the display title and \<open>output_dir\<close> itself as contiguous substrings.
\<close>

theorem readme_names_the_course:
  assumes "create_template e output_dir fs = (Returned True, fs', out)"
  shows "fs' (resolve e output_dir @ [''README.md'']) = Some (File (readme_content output_dir))
         \<and> sublist (display_title output_dir) (readme_content output_dir)
         \<and> sublist output_dir (readme_content output_dir)"
proof -
  from assms obtain fs2 where
    "write_text (readme_write_io e) fs2 (resolve e output_dir @ [''README.md''])
       (readme_content output_dir) = (None, fs')"
    by (rule create_template_True)
  then have "fs' = fs2 (resolve e output_dir @ [''README.md''] \<mapsto> File (readme_content output_dir))"
    by (rule write_text_None)
  then have 1: "fs' (resolve e output_dir @ [''README.md'']) = Some (File (readme_content output_dir))"
    by simp
  have "readme_content output_dir =
        ''# '' @ display_title output_dir
        @ ([CHR 0x0A] @ unlines readme_part1 @ output_dir @ ''/'' @ [CHR 0x0A]
           @ unlines readme_part2 @ ''python build_from_template.py ''
           @ output_dir @ [CHR 0x0A] @ unlines readme_part3)"
    by (simp add: readme_content_def)
  then have 2: "sublist (display_title output_dir) (readme_content output_dir)"
    unfolding sublist_def by blast
  have "readme_content output_dir =
        (''# '' @ display_title output_dir @ [CHR 0x0A] @ unlines readme_part1) @ output_dir
        @ (''/'' @ [CHR 0x0A] @ unlines readme_part2 @ ''python build_from_template.py ''
           @ output_dir @ [CHR 0x0A] @ unlines readme_part3)"
    by (simp add: readme_content_def)
  then have 3: "sublist output_dir (readme_content output_dir)"
    unfolding sublist_def by blast
  from 1 2 3 show ?thesis by simp
qed

text \<open>The README of \<open>bio-101\<close>.\<close>

theorem readme_names_the_course_witness:
  "fst (snd (create_template demo_env ''bio-101'' demo_fs)) [''work'', ''bio-101'', ''README.md'']
     = Some (File (readme_content ''bio-101''))
   \<and> sublist ''Bio 101'' (readme_content ''bio-101'')
   \<and> sublist ''bio-101'' (readme_content ''bio-101'')"
proof -
  have eq: "create_template demo_env ''bio-101'' demo_fs =
      (Returned True, fst (snd (create_template demo_env ''bio-101'' demo_fs)),
       snd (snd (create_template demo_env ''bio-101'' demo_fs)))"
    using demo_run by (metis prod.collapse)
  have t: "display_title ''bio-101'' = ''Bio 101''" by code_simp
  from readme_names_the_course [OF eq] t demo_resolve show ?thesis by simp
qed

text \<open>
  C10. The write of README.md is not guarded: in a run that reaches it, if it raises,
  the exception leaves \<open>create_template\<close> (which returns neither \<open>True\<close> nor \<open>False\<close>), and
  everything but README.md is as the course.json step left it: the copied tree and the
  rewritten course.json stay.
\<close>

theorem readme_failure_propagates:
  assumes "\<not> path_exists fs (resolve e output_dir)"
    and "path_exists fs (template_source e)"
    and "copytree (copy_io e) fs (template_source e) (resolve e output_dir) = (None, fs1)"
    and "update_course_json e output_dir (resolve e output_dir) fs1 = (fs2, msgs)"
    and "write_text (readme_write_io e) fs2 (resolve e output_dir @ [''README.md''])
           (readme_content output_dir) = (Some err, fs3)"
  shows "create_template e output_dir fs =
           (Raised err, fs3,
            [Banner output_dir (template_source e), CopyingFiles, CopiedStructure] @ msgs
            @ [UpdatingReadme])
         \<and> (\<forall>q. q \<noteq> resolve e output_dir @ [''README.md''] \<longrightarrow> fs3 q = fs2 q)"
proof -
  have "create_template e output_dir fs =
           (Raised err, fs3,
            [Banner output_dir (template_source e), CopyingFiles, CopiedStructure] @ msgs
            @ [UpdatingReadme])"
    using create_template_copied [OF assms] by simp
  moreover have "\<forall>q. q \<noteq> resolve e output_dir @ [''README.md''] \<longrightarrow> fs3 q = fs2 q"
    using write_text_frame [of _ "resolve e output_dir @ [''README.md'']" "readme_write_io e" fs2
        "readme_content output_dir"] assms(5)
    by simp
  ultimately show ?thesis by simp
qed

text \<open>The disk fills up when README.md is written.\<close>

theorem readme_failure_witness:
  "fst (create_template readme_fails_env ''bio-101'' demo_fs)
     = Raised (OSError ''No space left on device'')
   \<and> snd (snd (create_template readme_fails_env ''bio-101'' demo_fs))
     = [Banner ''bio-101'' [''tools'', ''canvas-course-template''], CopyingFiles, CopiedStructure,
        UpdatingCourseJson, UpdatedTitle (JStr ''Bio 101''), UpdatedCourseCode (JStr ''BIO-101''),
        UpdatingReadme]
   \<and> fst (snd (create_template readme_fails_env ''bio-101'' demo_fs))
        [''work'', ''bio-101'', ''css'', ''canvas-course.css''] = Some (File ''h1 {}'')
   \<and> fst (snd (create_template readme_fails_env ''bio-101'' demo_fs))
        [''work'', ''bio-101'', ''course.json'']
      = Some (File (json_dump (JObj [(''credits'', JNum ''5''), (''title'', JStr ''Bio 101''),
                                     (''course_code'', JStr ''BIO-101'')])))"
proof -
  let ?e = readme_fails_env
  let ?c = "copytree (copy_io ?e) demo_fs (template_source ?e) (resolve ?e ''bio-101'')"
  let ?u = "update_course_json ?e ''bio-101'' (resolve ?e ''bio-101'') (snd ?c)"
  let ?w = "write_text (readme_write_io ?e) (fst ?u) (resolve ?e ''bio-101'' @ [''README.md''])
              (readme_content ''bio-101'')"
  have s: "template_source ?e = [''tools'', ''canvas-course-template'']" by code_simp
  have a: "\<not> path_exists demo_fs (resolve ?e ''bio-101'')" by code_simp
  have b: "path_exists demo_fs (template_source ?e)" by code_simp
  have "fst ?c = None" by code_simp
  then have c: "?c = (None, snd ?c)" by (rule pair_fst)
  have u: "?u = (fst ?u, snd ?u)" by simp
  have "fst ?w = Some (OSError ''No space left on device'')" by code_simp
  then have w: "?w = (Some (OSError ''No space left on device''), snd ?w)" by (rule pair_fst)
  have m: "snd ?u = [UpdatingCourseJson, UpdatedTitle (JStr ''Bio 101''),
                     UpdatedCourseCode (JStr ''BIO-101'')]"
    by code_simp
  have css: "fst ?u [''work'', ''bio-101'', ''css'', ''canvas-course.css''] = Some (File ''h1 {}'')"
    by code_simp
  have cj: "fst ?u [''work'', ''bio-101'', ''course.json'']
      = Some (File (json_dump (JObj [(''credits'', JNum ''5''), (''title'', JStr ''Bio 101''),
                                     (''course_code'', JStr ''BIO-101'')])))"
    by code_simp
  have p: "[''work'', ''bio-101'', ''css'', ''canvas-course.css''] \<noteq> resolve ?e ''bio-101'' @ [''README.md'']"
    "[''work'', ''bio-101'', ''course.json''] \<noteq> resolve ?e ''bio-101'' @ [''README.md'']"
    by code_simp+
  note t = readme_failure_propagates [OF a b c u w]
  from t have 1: "create_template ?e ''bio-101'' demo_fs =
      (Raised (OSError ''No space left on device''), snd ?w,
       [Banner ''bio-101'' (template_source ?e), CopyingFiles, CopiedStructure] @ snd ?u
       @ [UpdatingReadme])"
    by simp
  from t p have 2: "snd ?w [''work'', ''bio-101'', ''css'', ''canvas-course.css'']
       = fst ?u [''work'', ''bio-101'', ''css'', ''canvas-course.css'']"
    "snd ?w [''work'', ''bio-101'', ''course.json''] = fst ?u [''work'', ''bio-101'', ''course.json'']"
    by blast+
  show ?thesis
    unfolding 1 using 2 css cj m s by simp
qed

end
